theory Spec2Isabelle
  imports Main "HOL-Library.Word"
begin

section \<open>Strings of the runtime\<close>

text \<open>
  A JavaScript string is a sequence of 16-bit code units; \<open>length\<close>, \<open>charAt\<close>,
  \<open>slice\<close> and \<open>trim\<close> count and cut code units. Message text is therefore a list of
  16-bit words. Names of transforms, identifiers and error messages are only ever compared
  for equality and stored, so they are kept as HOL strings.
\<close>

type_synonym char16 = "16 word"
type_synonym jsstring = "char16 list"

definition js :: "string \<Rightarrow> jsstring" where
  "js s = map of_char s"

text \<open>
  \<open>String.prototype.trim\<close> removes the code units that ECMAScript calls white space or
  line terminators from both ends.
\<close>

definition is_white_space :: "char16 \<Rightarrow> bool" where
  "is_white_space c \<longleftrightarrow>
     c \<in> set [0x0009, 0x000A, 0x000B, 0x000C, 0x000D, 0x0020, 0x00A0, 0x1680,
              0x2028, 0x2029, 0x202F, 0x205F, 0x3000, 0xFEFF]
     \<or> (0x2000 \<le> c \<and> c \<le> 0x200A)"

definition trim :: "jsstring \<Rightarrow> jsstring" where
  "trim s = rev (dropWhile is_white_space (rev (dropWhile is_white_space s)))"

text \<open>
  \<open>improved.charAt(0).toUpperCase()\<close>: the upper-case form of the first code unit, itself
  a string (it can be longer than one unit). On ASCII the mapping is fixed; the Unicode
  table for the other code units belongs to the runtime and is the parameter \<open>tbl\<close>.
\<close>

definition toUpperCase_unit :: "(char16 \<Rightarrow> jsstring) \<Rightarrow> char16 \<Rightarrow> jsstring" where
  "toUpperCase_unit tbl c =
     (if 0x61 \<le> c \<and> c \<le> 0x7A then [c - 0x20]
      else if c < 0x80 then [c]
      else tbl c)"

definition charAt0_toUpperCase :: "(char16 \<Rightarrow> jsstring) \<Rightarrow> jsstring \<Rightarrow> jsstring" where
  "charAt0_toUpperCase tbl s = (case s of [] \<Rightarrow> [] | c # _ \<Rightarrow> toUpperCase_unit tbl c)"

text \<open>The test \<open>/[.!?]$/\<close>: the last code unit is a full stop, an exclamation or a question mark.\<close>

definition is_terminal_punctuation :: "char16 \<Rightarrow> bool" where
  "is_terminal_punctuation c \<longleftrightarrow> c = 0x2E \<or> c = 0x21 \<or> c = 0x3F"

definition ends_with_punctuation :: "jsstring \<Rightarrow> bool" where
  "ends_with_punctuation s \<longleftrightarrow> s \<noteq> [] \<and> is_terminal_punctuation (last s)"

section \<open>The seed transforms\<close>

definition default_improver :: "(char16 \<Rightarrow> jsstring) \<Rightarrow> jsstring \<Rightarrow> jsstring" where
  "default_improver tbl message =
     (let improved = trim message in
      if length improved = 0 then improved
      else
        let improved = charAt0_toUpperCase tbl improved @ drop 1 improved in
        if \<not> ends_with_punctuation improved then improved @ js ''.'' else improved)"

text \<open>
  The \<open>professional\<close> seed replaces informal words with
  \<open>improved.replace(new RegExp(`\\b${informal}\\b`, 'gi'), formal)\<close>, one entry after
  the other in the order of the table. \<open>\b\<close> is a position between a word character
  (\<open>[A-Za-z0-9_]\<close>) and a code unit that is none, or the end of the text. With the
  flag \<open>i\<close> and no flag \<open>u\<close>, an ASCII letter of the pattern matches exactly its two
  ASCII cases, so the comparison is on ASCII upper case. The flag \<open>g\<close> replaces every
  match, searching on from the end of the previous one; \<open>prev\<close> is the code unit before
  the current position. Every word of the table is non-empty; the test \<open>w \<noteq> []\<close> is
  there for the recursion to be well-founded.
\<close>

definition is_word_char :: "char16 \<Rightarrow> bool" where
  "is_word_char c \<longleftrightarrow>
     (0x30 \<le> c \<and> c \<le> 0x39) \<or> (0x41 \<le> c \<and> c \<le> 0x5A) \<or> c = 0x5F \<or> (0x61 \<le> c \<and> c \<le> 0x7A)"

definition ascii_upper :: "char16 \<Rightarrow> char16" where
  "ascii_upper c = (if 0x61 \<le> c \<and> c \<le> 0x7A then c - 0x20 else c)"

definition word_boundary :: "char16 option \<Rightarrow> char16 option \<Rightarrow> bool" where
  "word_boundary a b \<longleftrightarrow>
     (case a of None \<Rightarrow> False | Some c \<Rightarrow> is_word_char c) \<noteq>
     (case b of None \<Rightarrow> False | Some c \<Rightarrow> is_word_char c)"

definition matches_here :: "jsstring \<Rightarrow> jsstring \<Rightarrow> bool" where
  "matches_here w s \<longleftrightarrow>
     length w \<le> length s \<and> map ascii_upper (take (length w) s) = map ascii_upper w"

definition unit_after :: "nat \<Rightarrow> jsstring \<Rightarrow> char16 option" where
  "unit_after n s = (case drop n s of [] \<Rightarrow> None | d # _ \<Rightarrow> Some d)"

function replace_word :: "jsstring \<Rightarrow> jsstring \<Rightarrow> char16 option \<Rightarrow> jsstring \<Rightarrow> jsstring" where
  "replace_word w formal prev [] = []"
| "replace_word w formal prev (c # cs) =
     (if w \<noteq> [] \<and> word_boundary prev (Some c) \<and> matches_here w (c # cs)
         \<and> word_boundary (Some (last (take (length w) (c # cs)))) (unit_after (length w) (c # cs))
      then formal @ replace_word w formal (Some (last (take (length w) (c # cs))))
                      (drop (length w) (c # cs))
      else c # replace_word w formal (Some c) cs)"
  by pat_completeness auto
termination
  by (relation "measure (\<lambda>(w, formal, prev, s). length s)") auto

definition replacements :: "(string \<times> string) list" where
  "replacements =
     [(''hi'', ''Hello''), (''hey'', ''Hello''), (''thanks'', ''Thank you''),
      (''thx'', ''Thank you''), (''u'', ''you''), (''ur'', ''your''), (''r'', ''are''),
      (''btw'', ''by the way''), (''asap'', ''as soon as possible''),
      (''fyi'', ''for your information'')]"

definition professional_improver :: "(char16 \<Rightarrow> jsstring) \<Rightarrow> jsstring \<Rightarrow> jsstring" where
  "professional_improver tbl message =
     (let improved = trim message in
      if length improved = 0 then improved
      else
        let improved = charAt0_toUpperCase tbl improved @ drop 1 improved;
            improved = fold (\<lambda>(informal, formal) improved.
                               replace_word (js informal) (js formal) None improved)
                         replacements improved
        in if \<not> ends_with_punctuation improved then improved @ js ''.'' else improved)"

text \<open>
  The \<open>creative\<close> seed draws a starter with \<open>Math.floor(Math.random() * 5)\<close>; the
  number drawn is the parameter \<open>rnd\<close> (an index outside the array would read
  \<open>undefined\<close>). \<open>toLowerCase\<close> on a whole string follows the Unicode tables of the
  runtime and is the parameter \<open>lower\<close>.
\<close>

definition engagingStarters :: "jsstring list" where
  "engagingStarters =
     [js ''Exciting news: '', js ''Here's something interesting: '',
      js ''You won't believe this: '', js ''Get ready for: '', js ''Amazing discovery: '']"

fun includes_str :: "jsstring \<Rightarrow> jsstring \<Rightarrow> bool" where
  "includes_str [] sub = (sub = [])"
| "includes_str (c # cs) sub = (take (length sub) (c # cs) = sub \<or> includes_str cs sub)"

definition replace_final_stop :: "jsstring \<Rightarrow> jsstring" where
  "replace_final_stop s = (if s \<noteq> [] \<and> last s = 0x2E then butlast s @ js ''!'' else s)"

definition creative_improver ::
  "(char16 \<Rightarrow> jsstring) \<Rightarrow> (jsstring \<Rightarrow> jsstring) \<Rightarrow> nat \<Rightarrow> jsstring \<Rightarrow> jsstring" where
  "creative_improver tbl lower rnd message =
     (let improved = trim message in
      if length improved = 0 then improved
      else
        let improved = charAt0_toUpperCase tbl improved @ drop 1 improved;
            improved =
              (if length improved < 100 \<and> \<not> includes_str improved (js '':'')
               then (if rnd < length engagingStarters then engagingStarters ! rnd
                     else js ''undefined'') @ improved
               else improved);
            improved =
              (if includes_str (lower improved) (js ''amazing'')
                  \<or> includes_str (lower improved) (js ''exciting'')
                  \<or> includes_str (lower improved) (js ''incredible'')
               then replace_final_stop improved
               else improved)
        in if \<not> ends_with_punctuation improved then improved @ js ''.'' else improved)"

section \<open>Values, outcomes and results\<close>

text \<open>
  A transform is called with the text and a context, and either returns a value or throws
  (an \<open>async\<close> transform whose promise is rejected throws at the \<open>await\<close>). A user
  transform is typed to return a string; the functions every object inherits can return
  other values when they are called as a transform. Transforms are taken to complete.

  Anything can be thrown. The handlers look at a thrown value in two ways, and both are
  part of the value here. They put it into a log line with \<open>${error}\<close>, which converts it
  to text: that works for strings, numbers and ordinary \<open>Error\<close> instances, and throws
  for a \<open>Symbol\<close> or an object without a usable \<open>toString\<close> (\<open>conversion_failure\<close> is
  what it throws then). And they evaluate
  \<open>error instanceof Error ? error.message : 'Unknown error'\<close>: a value that is no
  \<open>Error\<close> instance has \<open>message_if_Error = None\<close>, an instance has its message (a
  string, as the type of \<open>Error\<close> says), and evaluating the expression can itself throw,
  for instance when the message is an accessor. Each thrown value is looked at once on its
  way. Of the log lines nothing else is modelled: the logger receives a finished text and is
  taken to return.
\<close>

datatype role = Role_user | Role_assistant | Role_system

record message_context =
  ctx_conversationId :: string
  ctx_messageId :: string
  ctx_role :: role

type_synonym "context" = "message_context option"

datatype thrown =
  Thrown (conversion_failure: "thrown option") (message_if_Error: "(thrown + string) option")

text \<open>
  An ordinary \<open>Error\<close> (or \<open>TypeError\<close>) instance with the given message; a value such as
  a string, a number or \<open>null\<close>; and a \<open>Symbol\<close>, whose conversion to text throws a
  TypeError (worded as V8 words it).
\<close>

definition ErrorObject :: "string \<Rightarrow> thrown" where
  "ErrorObject msg = Thrown None (Some (Inr msg))"

definition plain_value :: thrown where
  "plain_value = Thrown None None"

definition symbol_value :: thrown where
  "symbol_value = Thrown (Some (ErrorObject ''Cannot convert a Symbol value to a string'')) None"

datatype jsvalue = JSString jsstring | JSBoolean bool | JSStringObject jsstring

datatype outcome = Returns jsvalue | Throws thrown

type_synonym transform = "jsstring \<Rightarrow> context \<Rightarrow> outcome"

datatype improvement_type = Type_custom | Type_default | Type_none

datatype metadata =
    ErrorMetadata string
  | ImproverMetadata string "context"
  | MessageMetadata string string

record MessageImprovementResult =
  originalMessage :: jsstring
  improvedMessage :: jsvalue
  improvementType :: improvement_type
  metadata :: metadata

definition metadata_error :: "metadata \<Rightarrow> string option" where
  "metadata_error m = (case m of ErrorMetadata e \<Rightarrow> Some e | _ \<Rightarrow> None)"

text \<open>\<open>try { body } catch (error) { handler }\<close> on results: \<open>Inl\<close> is a thrown value.\<close>

definition try_catch :: "thrown + 'a \<Rightarrow> (thrown \<Rightarrow> thrown + 'a) \<Rightarrow> thrown + 'a" where
  "try_catch body handler = (case body of Inl error \<Rightarrow> handler error | Inr v \<Rightarrow> Inr v)"

section \<open>The transform registry (class MessageImprover)\<close>

text \<open>
  \<open>improvers\<close> is an object literal \<open>{}\<close> used as a dictionary. Its own properties are
  the registered transforms. Reading \<open>this.improvers[name]\<close> also finds what the object
  inherits from \<open>Object.prototype\<close>; \<open>Object.keys\<close> and \<open>delete\<close> see own properties only.
  A value read from the object is \<open>undefined\<close>, a function, or (for \<open>__proto__\<close>, which
  reads the prototype object itself) a value that is true in a condition and cannot be called.

  The inherited functions are called as \<open>improver(message, context)\<close>, hence with
  \<open>this\<close> undefined: \<open>toString\<close> answers for undefined, \<open>isPrototypeOf\<close> answers
  false for a text, \<open>constructor\<close> is \<open>Object\<close> and wraps the text in a String object,
  and the others fail to convert \<open>this\<close> to an object. The message texts of these
  TypeErrors are those of V8, the engine of Node.js.
\<close>

datatype slot = Undefined | Callable transform | NotCallable

definition object_prototype :: "string \<Rightarrow> slot" where
  "object_prototype name =
     (if name = ''constructor'' then Callable (\<lambda>message context. Returns (JSStringObject message))
      else if name = ''toString'' then
        Callable (\<lambda>message context. Returns (JSString (js ''[object Undefined]'')))
      else if name = ''isPrototypeOf'' then Callable (\<lambda>message context. Returns (JSBoolean False))
      else if name = ''toLocaleString'' then
        Callable (\<lambda>message context.
          Throws (ErrorObject ''Object.prototype.toLocaleString called on null or undefined''))
      else if name \<in> set [''valueOf'', ''hasOwnProperty'', ''propertyIsEnumerable'',
                           ''__defineGetter__'', ''__defineSetter__'',
                           ''__lookupGetter__'', ''__lookupSetter__''] then
        Callable (\<lambda>message context.
          Throws (ErrorObject ''Cannot convert undefined or null to object''))
      else if name = ''__proto__'' then NotCallable
      else Undefined)"

record registry =
  improvers :: "string \<rightharpoonup> transform"
  activeImprover :: string

definition lookup :: "registry \<Rightarrow> string \<Rightarrow> slot" where
  "lookup r name =
     (case improvers r name of Some improver \<Rightarrow> Callable improver | None \<Rightarrow> object_prototype name)"

definition invoke :: "slot \<Rightarrow> jsstring \<Rightarrow> context \<Rightarrow> outcome" where
  "invoke improver message context =
     (case improver of
        Callable f \<Rightarrow> f message context
      | _ \<Rightarrow> Throws (ErrorObject ''improver is not a function''))"

text \<open>
  \<open>this.improvers[name] = improver\<close> adds or overwrites an own property. The one
  exception is the name \<open>__proto__\<close>: the assignment goes to the inherited setter, which
  replaces what the object inherits and adds no own property. The inherited part is fixed to
  \<open>Object.prototype\<close> here, so the model covers the registry as long as nothing is
  registered under that name, and \<open>register\<close> leaves the record as it is for it.
\<close>

definition register :: "string \<Rightarrow> transform \<Rightarrow> registry \<Rightarrow> registry" where
  "register name improver r =
     (if name = ''__proto__'' then r
      else r\<lparr>improvers := (improvers r)(name \<mapsto> improver)\<rparr>)"

definition setActive :: "string \<Rightarrow> registry \<Rightarrow> bool \<times> registry" where
  "setActive name r =
     (if lookup r name = Undefined then (False, r)
      else (True, r\<lparr>activeImprover := name\<rparr>))"

definition getActive :: "registry \<Rightarrow> string" where
  "getActive r = activeImprover r"

text \<open>\<open>list()\<close> is \<open>Object.keys\<close>, read here as the set of own names (their order is left out).\<close>

definition list_improvers :: "registry \<Rightarrow> string set" where
  "list_improvers r = dom (improvers r)"

definition exists_improver :: "registry \<Rightarrow> string \<Rightarrow> bool" where
  "exists_improver r name \<longleftrightarrow> name \<in> dom (improvers r) \<or> object_prototype name \<noteq> Undefined"

definition remove :: "string \<Rightarrow> registry \<Rightarrow> bool \<times> registry" where
  "remove name r =
     (if name = ''default'' then (False, r)
      else
        let r = (if activeImprover r = name then r\<lparr>activeImprover := ''default''\<rparr> else r)
        in (True, r\<lparr>improvers := (improvers r)(name := None)\<rparr>))"

text \<open>\<open>${error}\<close> in a log line, and the value stored as \<open>metadata.error\<close>.\<close>

definition template_text :: "thrown \<Rightarrow> thrown + unit" where
  "template_text error = (case conversion_failure error of None \<Rightarrow> Inr () | Some e \<Rightarrow> Inl e)"

definition error_message :: "thrown \<Rightarrow> thrown + string" where
  "error_message error =
     (case message_if_Error error of None \<Rightarrow> Inr ''Unknown error'' | Some m \<Rightarrow> m)"

definition not_found_result :: "jsstring \<Rightarrow> MessageImprovementResult" where
  "not_found_result message =
     \<lparr>originalMessage = message, improvedMessage = JSString message,
      improvementType = Type_none, metadata = ErrorMetadata ''Improver not found''\<rparr>"

text \<open>
  The handler of \<open>improve\<close> and \<open>improveWith\<close>: it writes the log line with the thrown
  value in it and then returns the result of type \<open>none\<close>. What either step throws leaves
  the function.
\<close>

definition failure_result :: "jsstring \<Rightarrow> thrown \<Rightarrow> thrown + MessageImprovementResult" where
  "failure_result message error =
     (case template_text error of
        Inl e \<Rightarrow> Inl e
      | Inr _ \<Rightarrow>
          (case error_message error of
             Inl e \<Rightarrow> Inl e
           | Inr msg \<Rightarrow>
               Inr \<lparr>originalMessage = message, improvedMessage = JSString message,
                    improvementType = Type_none, metadata = ErrorMetadata msg\<rparr>))"

definition improve :: "registry \<Rightarrow> jsstring \<Rightarrow> context \<Rightarrow> thrown + MessageImprovementResult" where
  "improve r message context =
     (let improver = lookup r (activeImprover r) in
      if improver = Undefined then Inr (not_found_result message)
      else
        try_catch
          (case invoke improver message context of
             Throws error \<Rightarrow> Inl error
           | Returns improved \<Rightarrow>
               Inr \<lparr>originalMessage = message, improvedMessage = improved,
                    improvementType =
                      (if activeImprover r = ''default'' then Type_default else Type_custom),
                    metadata = ImproverMetadata (activeImprover r) context\<rparr>)
          (\<lambda>error. failure_result message error))"

definition improveWith ::
  "registry \<Rightarrow> string \<Rightarrow> jsstring \<Rightarrow> context \<Rightarrow> thrown + MessageImprovementResult" where
  "improveWith r name message context =
     (let improver = lookup r name in
      if improver = Undefined then Inr (not_found_result message)
      else
        try_catch
          (case invoke improver message context of
             Throws error \<Rightarrow> Inl error
           | Returns improved \<Rightarrow>
               Inr \<lparr>originalMessage = message, improvedMessage = improved,
                    improvementType = (if name = ''default'' then Type_default else Type_custom),
                    metadata = ImproverMetadata name context\<rparr>)
          (\<lambda>error. failure_result message error))"

text \<open>
  The constructor registers the three seeds on the empty object with \<open>default\<close> active.
  The record \<open>runtime\<close> holds what the seeds take from the engine: the upper-case table,
  \<open>toLowerCase\<close>, and the number the random draw gives.
\<close>

record runtime =
  upper_table :: "char16 \<Rightarrow> jsstring"
  toLowerCase :: "jsstring \<Rightarrow> jsstring"
  random_index :: nat

definition registerDefaultImprovers :: "runtime \<Rightarrow> registry \<Rightarrow> registry" where
  "registerDefaultImprovers env r =
     register ''creative''
       (\<lambda>message context. Returns (JSString
          (creative_improver (upper_table env) (toLowerCase env) (random_index env) message)))
       (register ''professional''
          (\<lambda>message context. Returns (JSString (professional_improver (upper_table env) message)))
          (register ''default''
             (\<lambda>message context. Returns (JSString (default_improver (upper_table env) message)))
             r))"

definition new_MessageImprover :: "runtime \<Rightarrow> registry" where
  "new_MessageImprover env =
     registerDefaultImprovers env \<lparr>improvers = Map.empty, activeImprover = ''default''\<rparr>"

section \<open>The orchestrator (class NANDA)\<close>

text \<open>
  Messages and conversations as the type declarations have them, without the optional
  free-form \<open>metadata\<close> fields, which no operation reads. A \<open>Date\<close> is its number of
  milliseconds. The conversations are a \<open>Map\<close> from conversation id to conversation.

  \<open>messageCount\<close> is a JavaScript number, a 64-bit floating-point value, that starts at 0
  and is only changed by \<open>++\<close>. It always holds a whole number, which is kept here as a
  natural number; \<open>js_increment\<close> is \<open>++\<close> on such a value. Below \<open>2^53\<close> the sum is
  exact. From \<open>2^53\<close> on, the sum is rounded to the nearest value a double has (to the one
  with the even significand when two are equally near): up to \<open>2^54\<close> these values are two
  apart, beyond that they are further apart and the sum rounds back to the old value. So
  the counter that has reached \<open>2^53\<close> stays there.
\<close>

definition js_increment :: "nat \<Rightarrow> nat" where
  "js_increment c =
     (if c < 2 ^ 53 then c + 1
      else if c < 2 ^ 54 \<and> odd (c div 2) then c + 2
      else c)"

datatype content_type = Content_text | Content_image | Content_file

record MessageContent =
  mc_type :: content_type
  mc_content :: jsstring

record Message =
  msg_id :: string
  msg_role :: role
  msg_content :: "MessageContent list"
  msg_timestamp :: int
  msg_conversationId :: string

record Conversation =
  conv_id :: string
  messages :: "Message list"
  createdAt :: int
  updatedAt :: int

text \<open>The two options \<open>processMessage\<close> reads; an absent option is \<open>None\<close>.\<close>

record MessageProcessingOptions =
  improveMessage :: "bool option"
  improverName :: "string option"

record NANDA =
  conversations :: "string \<rightharpoonup> Conversation"
  messageCount :: nat
  isRunning :: bool
  bridge_isRunning :: bool
  api_isRunning :: bool
  isRegistered :: bool

text \<open>
  \<open>storeMessage\<close> reads the clock with \<open>new Date()\<close> twice when it creates a
  conversation (\<open>t_created\<close>, then \<open>t_updated\<close>) and once after the append (\<open>t_append\<close>).
  \<open>ensure_conversation\<close> is its first half, up to the point before the append. The
  conversation object put into the map is the one that is then changed, so the map holds
  the appended conversation.
\<close>

definition ensure_conversation ::
  "string \<Rightarrow> int \<Rightarrow> int \<Rightarrow> (string \<rightharpoonup> Conversation) \<Rightarrow> (string \<rightharpoonup> Conversation)" where
  "ensure_conversation cid t_created t_updated convs =
     (case convs cid of
        Some conversation \<Rightarrow> convs
      | None \<Rightarrow>
          convs(cid \<mapsto> \<lparr>conv_id = cid, messages = [],
                         createdAt = t_created, updatedAt = t_updated\<rparr>))"

definition append_message ::
  "Message \<Rightarrow> int \<Rightarrow> (string \<rightharpoonup> Conversation) \<Rightarrow> (string \<rightharpoonup> Conversation)" where
  "append_message message t_append convs =
     (case convs (msg_conversationId message) of
        None \<Rightarrow> convs
      | Some conversation \<Rightarrow>
          convs(msg_conversationId message \<mapsto>
                  conversation\<lparr>messages := messages conversation @ [message],
                               updatedAt := t_append\<rparr>))"

definition storeMessage :: "Message \<Rightarrow> int \<Rightarrow> int \<Rightarrow> int \<Rightarrow> NANDA \<Rightarrow> NANDA" where
  "storeMessage message t_created t_updated t_append n =
     n\<lparr>conversations :=
          append_message message t_append
            (ensure_conversation (msg_conversationId message) t_created t_updated
               (conversations n))\<rparr>"

definition getConversation :: "NANDA \<Rightarrow> string \<Rightarrow> Conversation option" where
  "getConversation n conversationId = conversations n conversationId"

text \<open>\<open>message.content[0]?.content || ''\<close>: the text of the first block, or the empty string.\<close>

definition first_content :: "Message \<Rightarrow> jsstring" where
  "first_content message = (case msg_content message of [] \<Rightarrow> [] | c # _ \<Rightarrow> mc_content c)"

text \<open>
  \<open>processMessage\<close> works on the process-wide registry \<open>messageImprover\<close>, which it
  only reads. Its whole body is inside \<open>try\<close>; the handler writes a log line with the
  error in it and throws the error again. The result comes with the state the call leaves
  behind.
\<close>

definition processMessage ::
  "registry \<Rightarrow> Message \<Rightarrow> MessageProcessingOptions \<Rightarrow> int \<Rightarrow> int \<Rightarrow> int \<Rightarrow> NANDA
     \<Rightarrow> (thrown + MessageImprovementResult) \<times> NANDA" where
  "processMessage messageImprover message opts t_created t_updated t_append n =
     (let n = n\<lparr>messageCount := js_increment (messageCount n)\<rparr>;
          n = storeMessage message t_created t_updated t_append n
      in (try_catch
            (if improveMessage opts \<noteq> Some False then
               let name = (case improverName opts of
                             None \<Rightarrow> getActive messageImprover
                           | Some nm \<Rightarrow> if nm = [] then getActive messageImprover else nm)
               in improveWith messageImprover name (first_content message)
                    (Some \<lparr>ctx_conversationId = msg_conversationId message,
                           ctx_messageId = msg_id message,
                           ctx_role = msg_role message\<rparr>)
             else
               Inr \<lparr>originalMessage = first_content message,
                    improvedMessage = JSString (first_content message),
                    improvementType = Type_none,
                    metadata = MessageMetadata (msg_id message) (msg_conversationId message)\<rparr>)
            (\<lambda>error. case template_text error of Inl e \<Rightarrow> Inl e | Inr _ \<Rightarrow> Inl error),
          n))"

section \<open>Directory registration and start\<close>

text \<open>
  What the registry service does is an input: it answers with a status, or the request
  fails. \<open>axios.post\<close> is called with \<open>validateStatus: (status) => status < 500\<close>, so it
  returns the response for a status below 500 and throws an AxiosError carrying the
  response otherwise; a request that gets no answer throws an AxiosError with a code, and
  the engine or the library can raise another error (\<open>OtherFailure\<close>), an \<open>Error\<close>
  instance, which the handler can put into its log line.
\<close>

datatype http_event = Answer nat | NoAnswer string | OtherFailure

datatype rejection = AxiosError "string option" "nat option" | NotAxiosError

datatype post_result = Resolved nat | Rejected rejection

definition axios_post :: "http_event \<Rightarrow> post_result" where
  "axios_post ev =
     (case ev of
        Answer status \<Rightarrow>
          if status < 500 then Resolved status
          else Rejected (AxiosError (Some ''ERR_BAD_RESPONSE'') (Some status))
      | NoAnswer code \<Rightarrow> Rejected (AxiosError (Some code) None)
      | OtherFailure \<Rightarrow> Rejected NotAxiosError)"

definition RegistryClient_register :: "http_event \<Rightarrow> NANDA \<Rightarrow> (thrown + bool) \<times> NANDA" where
  "RegistryClient_register ev n =
     (case axios_post ev of
        Resolved status \<Rightarrow>
          if status = 200 then (Inr True, n\<lparr>isRegistered := True\<rparr>)
          else (Inr False, n)
      | Rejected error \<Rightarrow> (Inr False, n\<lparr>isRegistered := False\<rparr>))"

text \<open>
  The bridge only sets its flag. The API server starts listening, which succeeds or fails
  with an error (\<open>listen_error\<close>).
\<close>

definition AgentBridge_start :: "NANDA \<Rightarrow> (thrown + unit) \<times> NANDA" where
  "AgentBridge_start n = (Inr (), n\<lparr>bridge_isRunning := True\<rparr>)"

definition ApiServer_start :: "thrown option \<Rightarrow> NANDA \<Rightarrow> (thrown + unit) \<times> NANDA" where
  "ApiServer_start listen_error n =
     (case listen_error of
        None \<Rightarrow> (Inr (), n\<lparr>api_isRunning := True\<rparr>)
      | Some error \<Rightarrow> (Inl error, n))"

definition NANDA_start :: "thrown option \<Rightarrow> http_event \<Rightarrow> NANDA \<Rightarrow> (thrown + unit) \<times> NANDA" where
  "NANDA_start listen_error ev n =
     (case AgentBridge_start n of
        (Inl error, n) \<Rightarrow> (Inl error, n)
      | (Inr _, n) \<Rightarrow>
          (case ApiServer_start listen_error n of
             (Inl error, n) \<Rightarrow> (Inl error, n)
           | (Inr _, n) \<Rightarrow>
               (case RegistryClient_register ev n of
                  (Inl error, n) \<Rightarrow> (Inl error, n)
                | (Inr _, n) \<Rightarrow> (Inr (), n\<lparr>isRunning := True\<rparr>))))"

section \<open>The default transform in the words of the specification\<close>

text \<open>
  The specification describes the \<open>default\<close> transform as three steps applied to every
  input: trim, capitalize the first character, append a full stop if the trimmed text does
  not end in \<open>.\<close>, \<open>!\<close> or \<open>?\<close>. \<open>spec_default\<close> is that description, to be compared
  with \<open>default_improver\<close>, which follows the code.
\<close>

definition spec_default :: "(char16 \<Rightarrow> jsstring) \<Rightarrow> jsstring \<Rightarrow> jsstring" where
  "spec_default tbl s =
     (let trimmed = trim s;
          capitalized = (case trimmed of [] \<Rightarrow> [] | c # cs \<Rightarrow> toUpperCase_unit tbl c @ cs)
      in if ends_with_punctuation trimmed then capitalized else capitalized @ js ''.'')"

section \<open>Concrete inputs\<close>

text \<open>
  A runtime restricted to the ASCII case tables (every other code unit is its own upper and
  lower case, the draw gives 0), a transform that throws a given value, a freshly
  constructed agent and a one-block text message, for evaluating the operations.
\<close>

definition identity_table :: "char16 \<Rightarrow> jsstring" where
  "identity_table c = [c]"

definition ascii_lower :: "char16 \<Rightarrow> char16" where
  "ascii_lower c = (if 0x41 \<le> c \<and> c \<le> 0x5A then c + 0x20 else c)"

definition plain_runtime :: runtime where
  "plain_runtime =
     \<lparr>upper_table = identity_table, toLowerCase = map ascii_lower, random_index = 0\<rparr>"

definition always_throws :: "thrown \<Rightarrow> transform" where
  "always_throws error message context = Throws error"

definition fresh_agent :: NANDA where
  "fresh_agent =
     \<lparr>conversations = Map.empty, messageCount = 0, isRunning = False,
      bridge_isRunning = False, api_isRunning = False, isRegistered = False\<rparr>"

definition text_message :: "string \<Rightarrow> string \<Rightarrow> string \<Rightarrow> Message" where
  "text_message mid cid txt =
     \<lparr>msg_id = mid, msg_role = Role_user,
      msg_content = [\<lparr>mc_type = Content_text, mc_content = js txt\<rparr>],
      msg_timestamp = 1000, msg_conversationId = cid\<rparr>"

section \<open>Registry states reachable through the public operations\<close>

text \<open>
  The states the constructor, \<open>register\<close>, \<open>remove\<close> and \<open>setActive\<close> lead to, as long
  as nothing is registered under \<open>__proto__\<close>.
\<close>

inductive reachable :: "runtime \<Rightarrow> registry \<Rightarrow> bool" for env :: runtime where
  constructed: "reachable env (new_MessageImprover env)"
| registered: "reachable env r \<Longrightarrow> name \<noteq> ''__proto__'' \<Longrightarrow>
               reachable env (register name improver r)"
| removed: "reachable env r \<Longrightarrow> reachable env (snd (remove name r))"
| activated: "reachable env r \<Longrightarrow> reachable env (snd (setActive name r))"

section \<open>Lemmas on text\<close>

lemma trim_all_white_space:
  assumes "\<forall>c\<in>set s. is_white_space c"
  shows "trim s = []"
proof -
  from assms have h: "dropWhile is_white_space s = []" by simp
  show ?thesis by (simp only: trim_def h rev.simps dropWhile.simps)
qed

lemma toUpperCase_unit_punctuation:
  assumes "\<And>c. 0x80 \<le> c \<Longrightarrow> \<not> ends_with_punctuation (tbl c)"
  shows "ends_with_punctuation (toUpperCase_unit tbl x) = is_terminal_punctuation x"
proof (cases "0x61 \<le> x \<and> x \<le> 0x7A")
  case True
  then have "\<not> is_terminal_punctuation (x - 0x20)" "\<not> is_terminal_punctuation x"
    by (auto simp: is_terminal_punctuation_def)
  with True show ?thesis
    by (simp add: toUpperCase_unit_def ends_with_punctuation_def)
next
  case False
  show ?thesis
  proof (cases "x < 0x80")
    case True
    with False show ?thesis
      by (auto simp add: toUpperCase_unit_def ends_with_punctuation_def)
  next
    case ge: False
    then have "0x80 \<le> x" by simp
    then have "\<not> ends_with_punctuation (tbl x)" by (rule assms)
    moreover from ge have "\<not> is_terminal_punctuation x"
      by (auto simp: is_terminal_punctuation_def)
    ultimately show ?thesis using ge False
      by (auto simp add: toUpperCase_unit_def)
  qed
qed

lemma capitalized_punctuation:
  assumes "\<And>c. 0x80 \<le> c \<Longrightarrow> \<not> ends_with_punctuation (tbl c)"
  shows "ends_with_punctuation (toUpperCase_unit tbl x @ xs) = ends_with_punctuation (x # xs)"
proof (cases xs)
  case Nil
  then show ?thesis using toUpperCase_unit_punctuation[of tbl x, OF assms]
    by (simp add: ends_with_punctuation_def)
next
  case (Cons y ys)
  then show ?thesis by (simp add: ends_with_punctuation_def)
qed

lemma identity_table_no_punctuation:
  "0x80 \<le> c \<Longrightarrow> \<not> ends_with_punctuation (identity_table c)"
  by (auto simp add: identity_table_def ends_with_punctuation_def is_terminal_punctuation_def)

section \<open>Lemmas on the registry\<close>

lemmas registry_defs =
  new_MessageImprover_def registerDefaultImprovers_def register_def lookup_def
  object_prototype_def list_improvers_def

lemma reachable_default_registered: "reachable env r \<Longrightarrow> ''default'' \<in> list_improvers r"
proof (induction rule: reachable.induct)
  case constructed
  show ?case by (simp add: registry_defs)
next
  case (registered r name improver)
  then show ?case by (simp add: register_def list_improvers_def)
next
  case (removed r name)
  then show ?case by (auto simp add: remove_def list_improvers_def Let_def)
next
  case (activated r name)
  then show ?case by (simp add: setActive_def list_improvers_def)
qed

text \<open>
  In every reachable state the active name can be read from the registry object, as an own
  entry or as an inherited member.
\<close>

lemma reachable_active_resolves:
  "reachable env r \<Longrightarrow> lookup r (activeImprover r) \<noteq> Undefined"
proof (induction rule: reachable.induct)
  case constructed
  show ?case by (simp add: registry_defs)
next
  case (registered r name improver)
  then show ?case by (auto simp add: register_def lookup_def split: option.splits)
next
  case (removed r name)
  moreover have "''default'' \<in> list_improvers r"
    using removed.hyps by (rule reachable_default_registered)
  ultimately show ?case
    by (auto simp add: remove_def lookup_def list_improvers_def Let_def split: option.splits)
next
  case (activated r name)
  then show ?case by (auto simp add: setActive_def lookup_def split: option.splits)
qed

lemma setActive_registered:
  "improvers r name = Some improver \<Longrightarrow> setActive name r = (True, r\<lparr>activeImprover := name\<rparr>)"
  by (simp add: setActive_def lookup_def)

lemma setActive_not_readable:
  "improvers r name = None \<Longrightarrow> object_prototype name = Undefined \<Longrightarrow>
   setActive name r = (False, r)"
  by (simp add: setActive_def lookup_def)

lemma improveWith_not_readable:
  "improvers r name = None \<Longrightarrow> object_prototype name = Undefined \<Longrightarrow>
   improveWith r name message context = Inr (not_found_result message)"
  by (simp add: improveWith_def lookup_def)

lemma remove_active_resets:
  "name \<noteq> ''default'' \<Longrightarrow> getActive r = name \<Longrightarrow> getActive (snd (remove name r)) = ''default''"
  by (simp add: remove_def getActive_def Let_def)

section \<open>The claims\<close>

subsection \<open>C1: remove\<close>

text \<open>
  C1, as stated, fails: on the freshly constructed registry, \<open>remove("ghost")\<close> returns
  true although no entry of that name exists.
\<close>

theorem remove_missing_name_returns_true:
  "fst (remove ''ghost'' (new_MessageImprover plain_runtime)) = True
   \<and> ''ghost'' \<notin> list_improvers (new_MessageImprover plain_runtime)"
  by (simp add: remove_def registry_defs)

text \<open>
  C1, amended. \<open>remove("default")\<close> returns false and leaves the registry as it is (so
  \<open>default\<close> stays in \<open>list()\<close>). For every other name \<open>remove\<close> returns true, whether
  or not an entry of that name existed; afterwards the name is not in \<open>list()\<close>, every
  other entry is unchanged, and the active name is \<open>default\<close> if it was the removed name
  and unchanged otherwise.
\<close>

theorem remove_returns_true_unless_default:
  assumes "name \<noteq> ''default''"
  shows "remove ''default'' r = (False, r)
       \<and> fst (remove name r) = True
       \<and> name \<notin> list_improvers (snd (remove name r))
       \<and> improvers (snd (remove name r)) = (improvers r)(name := None)
       \<and> getActive (snd (remove name r)) = (if getActive r = name then ''default'' else getActive r)"
  using assms by (simp add: remove_def list_improvers_def getActive_def Let_def)

text \<open>The amended C1 at the name \<open>creative\<close> on the freshly constructed registry.\<close>

theorem remove_returns_true_unless_default_witness:
  "''creative'' \<noteq> ''default''
   \<and> remove ''default'' (new_MessageImprover plain_runtime)
       = (False, new_MessageImprover plain_runtime)
   \<and> fst (remove ''creative'' (new_MessageImprover plain_runtime)) = True
   \<and> ''creative'' \<in> list_improvers (new_MessageImprover plain_runtime)
   \<and> ''creative'' \<notin> list_improvers (snd (remove ''creative'' (new_MessageImprover plain_runtime)))"
proof -
  have ne: "''creative'' \<noteq> ''default''" by simp
  have before: "''creative'' \<in> list_improvers (new_MessageImprover plain_runtime)"
    by (simp add: registry_defs)
  from ne before
    remove_returns_true_unless_default [OF ne, of "new_MessageImprover plain_runtime"]
  show ?thesis by simp
qed

subsection \<open>C2: a transform that throws\<close>

text \<open>
  C2, as stated, fails: a registered transform that throws an \<open>Error\<close> without a message
  (\<open>throw new Error()\<close>) gives the result of type \<open>none\<close> with the text unchanged, but
  \<open>metadata.error\<close> is the empty string.
\<close>

theorem improveWith_empty_error_message:
  "improveWith
     (register ''silent'' (always_throws (ErrorObject [])) (new_MessageImprover plain_runtime))
     ''silent'' (js ''hello'') None
   = Inr \<lparr>originalMessage = js ''hello'', improvedMessage = JSString (js ''hello''),
          improvementType = Type_none, metadata = ErrorMetadata []\<rparr>"
  by (simp add: improveWith_def registry_defs invoke_def try_catch_def always_throws_def
        failure_result_def template_text_def error_message_def ErrorObject_def)

text \<open>
  C2, amended. For every registered transform whose invocation throws a value that the
  handler can put into its log line and whose message can be read, \<open>improveWith\<close> (and
  \<open>improve\<close>, when that name is the active one) returns normally, with
  \<open>improvementType\<close> \<open>none\<close>, \<open>improvedMessage\<close> equal to \<open>originalMessage\<close>, and
  \<open>metadata.error\<close> equal to the message of the thrown \<open>Error\<close>, or to
  \<open>Unknown error\<close> when the thrown value is not an \<open>Error\<close>; \<open>metadata.error\<close> is empty
  exactly when an \<open>Error\<close> with an empty message was thrown. Nothing is said here about a
  thrown value whose conversion to text throws (see \<open>improveWith_symbol_thrown\<close> below).
\<close>

theorem thrown_transform_gives_none_result:
  assumes "improvers r name = Some improver"
    and "improver message context = Throws error"
    and "conversion_failure error = None"
    and "error_message error = Inr msg"
  shows "improveWith r name message context =
           Inr \<lparr>originalMessage = message, improvedMessage = JSString message,
                improvementType = Type_none, metadata = ErrorMetadata msg\<rparr>
       \<and> improve (r\<lparr>activeImprover := name\<rparr>) message context =
           Inr \<lparr>originalMessage = message, improvedMessage = JSString message,
                improvementType = Type_none, metadata = ErrorMetadata msg\<rparr>
       \<and> msg = (case message_if_Error error of None \<Rightarrow> ''Unknown error'' | Some m \<Rightarrow> projr m)
       \<and> (msg = [] \<longleftrightarrow> message_if_Error error = Some (Inr []))"
proof -
  from assms(3,4) have handler:
    "failure_result message error =
       Inr \<lparr>originalMessage = message, improvedMessage = JSString message,
            improvementType = Type_none, metadata = ErrorMetadata msg\<rparr>"
    by (simp add: failure_result_def template_text_def)
  from assms(1,2) have with_name:
    "improveWith r name message context = failure_result message error"
    by (simp add: improveWith_def lookup_def invoke_def try_catch_def)
  from assms(1,2) have active:
    "improve (r\<lparr>activeImprover := name\<rparr>) message context = failure_result message error"
    by (simp add: improve_def lookup_def invoke_def try_catch_def)
  from assms(4) have wording:
    "msg = (case message_if_Error error of None \<Rightarrow> ''Unknown error'' | Some m \<Rightarrow> projr m)"
    "msg = [] \<longleftrightarrow> message_if_Error error = Some (Inr [])"
    by (auto simp add: error_message_def split: option.splits)
  from handler with_name active wording show ?thesis by simp
qed

text \<open>The amended C2 at a transform that throws a value that is not an \<open>Error\<close>.\<close>

theorem thrown_transform_gives_none_result_witness:
  "improveWith
     (register ''boom'' (always_throws plain_value) (new_MessageImprover plain_runtime))
     ''boom'' (js ''hello'') None
   = Inr \<lparr>originalMessage = js ''hello'', improvedMessage = JSString (js ''hello''),
          improvementType = Type_none, metadata = ErrorMetadata ''Unknown error''\<rparr>"
proof -
  have registered:
    "improvers (register ''boom'' (always_throws plain_value) (new_MessageImprover plain_runtime))
       ''boom'' = Some (always_throws plain_value)"
    by (simp add: register_def)
  have throws: "always_throws plain_value (js ''hello'') None = Throws plain_value"
    by (simp add: always_throws_def)
  have converts: "conversion_failure plain_value = None"
    by (simp add: plain_value_def)
  have unknown: "error_message plain_value = Inr ''Unknown error''"
    by (simp add: error_message_def plain_value_def)
  from thrown_transform_gives_none_result [OF registered throws converts unknown]
  show ?thesis by simp
qed

text \<open>
  What the amended claim leaves out: when the thrown value cannot be converted to text, the
  log line in the handler throws and \<open>improveWith\<close> does not return a result. A transform
  that throws a \<open>Symbol\<close> makes \<open>improveWith\<close> fail with the TypeError of the conversion,
  and \<open>processMessage\<close> passes that error on, after it has counted and stored the message.
\<close>

lemma improveWith_conversion_fails:
  assumes "improvers r name = Some improver"
    and "improver message context = Throws error"
    and "conversion_failure error = Some e"
  shows "improveWith r name message context = Inl e"
  using assms
  by (simp add: improveWith_def lookup_def invoke_def try_catch_def failure_result_def
        template_text_def)

lemma improveWith_symbol_thrown:
  "improveWith
     (register ''sym'' (always_throws symbol_value) (new_MessageImprover plain_runtime))
     ''sym'' (js ''hello'') None
   = Inl (ErrorObject ''Cannot convert a Symbol value to a string'')"
  by (simp add: improveWith_def registry_defs invoke_def try_catch_def always_throws_def
        failure_result_def template_text_def symbol_value_def)

lemma processMessage_symbol_thrown:
  "processMessage
     (register ''sym'' (always_throws symbol_value) (new_MessageImprover plain_runtime))
     (text_message ''m1'' ''c1'' ''hello'')
     \<lparr>improveMessage = None, improverName = Some ''sym''\<rparr> 1 1 1 fresh_agent
   = (Inl (ErrorObject ''Cannot convert a Symbol value to a string''),
      storeMessage (text_message ''m1'' ''c1'' ''hello'') 1 1 1 (fresh_agent\<lparr>messageCount := 1\<rparr>))"
  by (simp add: processMessage_def improveWith_def registry_defs invoke_def try_catch_def
        always_throws_def failure_result_def template_text_def symbol_value_def
        ErrorObject_def js_increment_def fresh_agent_def getActive_def)

subsection \<open>C3: improveWith on a name that is not registered\<close>

text \<open>
  C3 does not hold of the code. \<open>toString\<close> is not registered, but the registry object
  inherits a function of that name, so \<open>improveWith("toString", "hello")\<close> does not take
  the not-found branch: it calls the inherited function and returns its answer as a
  \<open>custom\<close> improvement.
\<close>

theorem improveWith_inherited_name:
  "''toString'' \<notin> list_improvers (new_MessageImprover plain_runtime)
   \<and> improveWith (new_MessageImprover plain_runtime) ''toString'' (js ''hello'') None
     = Inr \<lparr>originalMessage = js ''hello'',
            improvedMessage = JSString (js ''[object Undefined]''),
            improvementType = Type_custom, metadata = ImproverMetadata ''toString'' None\<rparr>"
  by (simp add: improveWith_def registry_defs invoke_def try_catch_def)

subsection \<open>C4: the message counter\<close>

text \<open>
  C4, as stated, fails: the counter is a floating-point number, and a call of
  \<open>processMessage\<close> that finds it at \<open>2^53\<close> leaves it at \<open>2^53\<close>.
\<close>

theorem processMessage_counter_stuck:
  "messageCount
     (snd (processMessage (new_MessageImprover plain_runtime) (text_message ''m1'' ''c1'' ''hello'')
             \<lparr>improveMessage = None, improverName = None\<rparr> 1 1 1
             (fresh_agent\<lparr>messageCount := 9007199254740992\<rparr>)))
   = 9007199254740992"
  by (simp add: processMessage_def storeMessage_def js_increment_def Let_def)

text \<open>
  C4, amended. Every call of \<open>processMessage\<close> that finds the message counter below
  \<open>2^53\<close> leaves it exactly one higher, whatever the registry holds, whichever transform
  the options select (one that returns, one that throws, a name that is not registered) and
  also when the options switch the transformation off: the statement holds for every
  registry, message and option record, and for the state left behind by a call that throws
  as well.
\<close>

theorem processMessage_increments_messageCount:
  assumes "messageCount n < 2 ^ 53"
  shows "messageCount
           (snd (processMessage messageImprover message opts t_created t_updated t_append n))
         = messageCount n + 1"
  using assms by (simp add: processMessage_def storeMessage_def js_increment_def Let_def)

text \<open>The amended C4 at the first message of a fresh agent.\<close>

theorem processMessage_increments_messageCount_witness:
  "messageCount fresh_agent < 2 ^ 53
   \<and> messageCount
       (snd (processMessage (new_MessageImprover plain_runtime)
               (text_message ''m1'' ''c1'' ''hello'')
               \<lparr>improveMessage = None, improverName = None\<rparr> 1 1 1 fresh_agent))
     = 1"
proof -
  have below: "messageCount fresh_agent < 2 ^ 53"
    by (simp add: fresh_agent_def)
  have zero: "messageCount fresh_agent = 0"
    by (simp add: fresh_agent_def)
  from below zero
    processMessage_increments_messageCount
      [OF below, of "new_MessageImprover plain_runtime" "text_message ''m1'' ''c1'' ''hello''"
         "\<lparr>improveMessage = None, improverName = None\<rparr>" 1 1 1]
  show ?thesis by simp
qed

subsection \<open>C5: the active name\<close>

text \<open>
  C5 does not hold of the code. \<open>setActive("hasOwnProperty")\<close> on the freshly constructed
  registry succeeds, and the state it reaches has an active name that is no entry of the
  registry.
\<close>

theorem active_name_without_entry:
  "reachable plain_runtime (snd (setActive ''hasOwnProperty'' (new_MessageImprover plain_runtime)))
   \<and> getActive (snd (setActive ''hasOwnProperty'' (new_MessageImprover plain_runtime)))
       = ''hasOwnProperty''
   \<and> ''hasOwnProperty'' \<notin>
       list_improvers (snd (setActive ''hasOwnProperty'' (new_MessageImprover plain_runtime)))"
proof -
  have "reachable plain_runtime
          (snd (setActive ''hasOwnProperty'' (new_MessageImprover plain_runtime)))"
    by (rule reachable.activated [OF reachable.constructed])
  then show ?thesis
    by (simp add: setActive_def getActive_def registry_defs)
qed

subsection \<open>C6: directory registration does not stop the start\<close>

text \<open>
  C6. Whatever the registry service does (any status, no answer, any other failure),
  \<open>RegistryClient.register\<close> throws nothing and returns a boolean, which is true exactly
  for the answer 200; and when the bridge and the API server have started, \<open>NANDA.start\<close>
  returns normally with the agent running, after a failed registration as after a
  successful one.
\<close>

theorem start_survives_registration_failure:
  "fst (RegistryClient_register ev n) = Inr (ev = Answer 200)
   \<and> fst (NANDA_start None ev n) = Inr ()
   \<and> isRunning (snd (NANDA_start None ev n))"
  by (auto simp add: RegistryClient_register_def NANDA_start_def AgentBridge_start_def
        ApiServer_start_def axios_post_def
      split: http_event.splits post_result.splits)

subsection \<open>C7: the default transform\<close>

text \<open>
  C7, as stated, fails: on the empty text the three steps of the specification end with a
  full stop appended, while the code returns the empty text.
\<close>

theorem default_improver_empty_text_differs:
  "default_improver identity_table [] = [] \<and> spec_default identity_table [] = js ''.''"
  by (simp add: default_improver_def spec_default_def trim_def js_def ends_with_punctuation_def)

text \<open>
  C7, amended. For every input whose trimmed text is not empty, the \<open>default\<close> transform
  trims surrounding white space, puts the first code unit into upper case and appends a
  full stop if the trimmed text does not already end in \<open>.\<close>, \<open>!\<close> or \<open>?\<close>; an input
  whose trimmed text is empty gives the empty text. It maps \<open>hi there\<close> to
  \<open>Hi there.\<close>, also when called through the registry. The upper-case table of the
  runtime is only assumed not to produce text ending in one of the three marks.
\<close>

theorem default_improver_meets_spec_on_nonempty:
  assumes "\<And>c. 0x80 \<le> c \<Longrightarrow> \<not> ends_with_punctuation (tbl c)"
  shows "default_improver tbl s = (if trim s = [] then [] else spec_default tbl s)
       \<and> default_improver tbl (js ''hi there'') = js ''Hi there.''
       \<and> improveWith (new_MessageImprover env) ''default'' (js ''hi there'') context
           = Inr \<lparr>originalMessage = js ''hi there'', improvedMessage = JSString (js ''Hi there.''),
                  improvementType = Type_default,
                  metadata = ImproverMetadata ''default'' context\<rparr>"
proof -
  have general: "default_improver tbl s = (if trim s = [] then [] else spec_default tbl s)"
  proof (cases "trim s")
    case Nil
    then show ?thesis by (simp add: default_improver_def)
  next
    case (Cons x xs)
    then show ?thesis
      using capitalized_punctuation [of tbl x xs, OF assms]
      by (simp add: default_improver_def spec_default_def charAt0_toUpperCase_def Let_def)
  qed
  have example: "default_improver t (js ''hi there'') = js ''Hi there.''" for t
    by (simp add: default_improver_def trim_def is_white_space_def js_def
          charAt0_toUpperCase_def toUpperCase_unit_def ends_with_punctuation_def
          is_terminal_punctuation_def)
  have through_registry:
    "improveWith (new_MessageImprover env) ''default'' (js ''hi there'') context
       = Inr \<lparr>originalMessage = js ''hi there'', improvedMessage = JSString (js ''Hi there.''),
              improvementType = Type_default, metadata = ImproverMetadata ''default'' context\<rparr>"
    by (simp add: improveWith_def registry_defs invoke_def try_catch_def example)
  from general example through_registry show ?thesis by simp
qed

text \<open>The amended C7 at the text \<open>ok then\<close> between blanks.\<close>

theorem default_improver_meets_spec_on_nonempty_witness:
  "trim (js ''  ok then '') \<noteq> []
   \<and> default_improver identity_table (js ''  ok then '')
       = spec_default identity_table (js ''  ok then '')
   \<and> default_improver identity_table (js ''  ok then '') = js ''Ok then.''"
proof -
  have ne: "trim (js ''  ok then '') \<noteq> []"
    by (simp add: trim_def is_white_space_def js_def)
  have computed: "default_improver identity_table (js ''  ok then '') = js ''Ok then.''"
    by (simp add: default_improver_def trim_def is_white_space_def js_def
          charAt0_toUpperCase_def toUpperCase_unit_def ends_with_punctuation_def
          is_terminal_punctuation_def)
  from ne computed
    default_improver_meets_spec_on_nonempty
      [of identity_table "js ''  ok then ''", OF identity_table_no_punctuation]
  show ?thesis by simp
qed

subsection \<open>C8: the conversation store\<close>

text \<open>
  C8, as stated, fails. The timestamps are separate readings of the wall clock, and nothing
  orders them: with the readings 5 and 6 at creation, the conversation created for an
  unknown id has \<open>createdAt = 5\<close> and \<open>updatedAt = 6\<close> before the append, and when the
  clock is set back to 3 before the reading after the append, the stored conversation has
  \<open>updatedAt = 3\<close>, which is before \<open>createdAt = 5\<close>.
\<close>

theorem storeMessage_clock_set_back:
  "ensure_conversation ''c1'' 5 6 (conversations fresh_agent) ''c1''
     = Some \<lparr>conv_id = ''c1'', messages = [], createdAt = 5, updatedAt = 6\<rparr>
   \<and> getConversation (storeMessage (text_message ''m1'' ''c1'' ''hello'') 5 6 3 fresh_agent) ''c1''
     = Some \<lparr>conv_id = ''c1'', messages = [text_message ''m1'' ''c1'' ''hello''],
             createdAt = 5, updatedAt = 3\<rparr>"
  by (simp add: getConversation_def storeMessage_def ensure_conversation_def
        append_message_def fresh_agent_def text_message_def)

text \<open>
  C8, amended. For every message whose conversation id is unknown, \<open>storeMessage\<close> first
  creates a conversation with an empty message list whose \<open>createdAt\<close> and \<open>updatedAt\<close>
  are the two clock readings taken at creation, puts it into the store, and then appends.
  After two messages with the same, previously unknown id the conversation holds exactly
  these two messages in arrival order; \<open>createdAt\<close> is still the first reading taken at
  creation and \<open>updatedAt\<close> is the reading taken after the latest append, so that
  \<open>updatedAt >= createdAt\<close> holds exactly when that reading is not before the one taken
  for \<open>createdAt\<close>, as on a clock that does not run backwards.
\<close>

theorem storeMessage_twice:
  assumes "getConversation n cid = None"
    and "msg_conversationId m1 = cid" and "msg_conversationId m2 = cid"
  shows "ensure_conversation cid t_created t_updated (conversations n) cid
           = Some \<lparr>conv_id = cid, messages = [], createdAt = t_created, updatedAt = t_updated\<rparr>
       \<and> getConversation (storeMessage m1 t_created t_updated t1 n) cid
           = Some \<lparr>conv_id = cid, messages = [m1], createdAt = t_created, updatedAt = t1\<rparr>
       \<and> getConversation
             (storeMessage m2 u_created u_updated t2 (storeMessage m1 t_created t_updated t1 n)) cid
           = Some \<lparr>conv_id = cid, messages = [m1, m2], createdAt = t_created, updatedAt = t2\<rparr>
       \<and> map_option (\<lambda>c. (length (messages c), createdAt c \<le> updatedAt c))
             (getConversation
               (storeMessage m2 u_created u_updated t2 (storeMessage m1 t_created t_updated t1 n))
               cid)
           = Some (2, t_created \<le> t2)"
  using assms
  by (simp add: getConversation_def storeMessage_def ensure_conversation_def
        append_message_def)

text \<open>The amended C8 at two messages for the conversation \<open>c1\<close>, stored in a fresh agent.\<close>

theorem storeMessage_twice_witness:
  "getConversation fresh_agent ''c1'' = None
   \<and> getConversation
        (storeMessage (text_message ''m2'' ''c1'' ''again'') 7 8 9
           (storeMessage (text_message ''m1'' ''c1'' ''hello'') 5 5 6 fresh_agent)) ''c1''
     = Some \<lparr>conv_id = ''c1'',
             messages = [text_message ''m1'' ''c1'' ''hello'', text_message ''m2'' ''c1'' ''again''],
             createdAt = 5, updatedAt = 9\<rparr>"
proof -
  have unknown: "getConversation fresh_agent ''c1'' = None"
    by (simp add: getConversation_def fresh_agent_def)
  have id1: "msg_conversationId (text_message ''m1'' ''c1'' ''hello'') = ''c1''"
    by (simp add: text_message_def)
  have id2: "msg_conversationId (text_message ''m2'' ''c1'' ''again'') = ''c1''"
    by (simp add: text_message_def)
  from unknown storeMessage_twice [OF unknown id1 id2, of 5 5 6 7 8 9]
  show ?thesis by simp
qed

subsection \<open>C9: setActive\<close>

text \<open>
  C9 does not hold of the code. \<open>constructor\<close> is not registered, yet
  \<open>setActive("constructor")\<close> on the freshly constructed registry returns true and changes
  the active name from \<open>default\<close> to \<open>constructor\<close>.
\<close>

theorem setActive_inherited_name:
  "''constructor'' \<notin> list_improvers (new_MessageImprover plain_runtime)
   \<and> getActive (new_MessageImprover plain_runtime) = ''default''
   \<and> fst (setActive ''constructor'' (new_MessageImprover plain_runtime)) = True
   \<and> getActive (snd (setActive ''constructor'' (new_MessageImprover plain_runtime)))
       = ''constructor''"
  by (simp add: setActive_def getActive_def registry_defs)

subsection \<open>C10: empty and blank input\<close>

text \<open>
  C10. For every input that is empty or consists of white space only, the \<open>default\<close>,
  \<open>professional\<close> and \<open>creative\<close> seeds return the empty text: nothing is capitalized
  and no punctuation is appended. The same holds when they are called through the registry.
\<close>

theorem seeds_return_empty_on_blank:
  assumes "\<forall>c\<in>set message. is_white_space c"
  shows "default_improver tbl message = []
       \<and> professional_improver tbl message = []
       \<and> creative_improver tbl lower rnd message = []
       \<and> improveWith (new_MessageImprover env) ''default'' message context
           = Inr \<lparr>originalMessage = message, improvedMessage = JSString [],
                  improvementType = Type_default,
                  metadata = ImproverMetadata ''default'' context\<rparr>
       \<and> improveWith (new_MessageImprover env) ''professional'' message context
           = Inr \<lparr>originalMessage = message, improvedMessage = JSString [],
                  improvementType = Type_custom,
                  metadata = ImproverMetadata ''professional'' context\<rparr>
       \<and> improveWith (new_MessageImprover env) ''creative'' message context
           = Inr \<lparr>originalMessage = message, improvedMessage = JSString [],
                  improvementType = Type_custom,
                  metadata = ImproverMetadata ''creative'' context\<rparr>"
proof -
  have blank: "trim message = []"
    using assms by (rule trim_all_white_space)
  have d: "default_improver t message = []" for t
    by (simp add: default_improver_def blank)
  have p: "professional_improver t message = []" for t
    by (simp add: professional_improver_def blank)
  have c: "creative_improver t l k message = []" for t l k
    by (simp add: creative_improver_def blank)
  show ?thesis
    by (simp add: d p c improveWith_def registry_defs invoke_def try_catch_def)
qed

text \<open>C10 at the text made of a blank, a tab and a line feed.\<close>

theorem seeds_return_empty_on_blank_witness:
  "is_white_space 0x20 \<and> is_white_space 0x09 \<and> is_white_space 0x0A
   \<and> default_improver identity_table [0x20, 0x09, 0x0A] = []
   \<and> professional_improver identity_table [0x20, 0x09, 0x0A] = []
   \<and> creative_improver identity_table (map ascii_lower) 0 [0x20, 0x09, 0x0A] = []"
proof -
  have blank: "\<forall>c\<in>set [0x20, 0x09, 0x0A]. is_white_space c"
    by (simp add: is_white_space_def)
  from blank seeds_return_empty_on_blank [OF blank, of identity_table "map ascii_lower" 0]
  show ?thesis by (simp add: is_white_space_def)
qed

end
